theory Spec2Isabelle
  imports Complex_Main "HOL-Library.Multiset"
begin

section \<open>The spreadsheet and \<open>load_data\<close>\<close>

text \<open>
  A cell of the sheet as \<open>pd.read_excel\<close> hands it over: a number, a text, or an empty
  cell. Numbers are modelled as exact rationals (rounding of the binary floats is not
  modelled); a missing number (pandas' NaN) is \<open>None\<close> in a numeric column.
\<close>

datatype cell = Num rat | Str string | Blank

text \<open>
  One row of the table. The same columns hold cells before the coercion and numbers after
  it, so the type of the numeric columns is a parameter. \<open>Impr\<close> is the column
  \<open>'Impr.'\<close>, \<open>Asset_type\<close> is \<open>'Asset type'\<close>, and \<open>Installs_per_1000\<close> is the
  optional column \<open>'Installs per (1000) impressions'\<close> (\<open>None\<close>: the sheet has no such
  column).
\<close>

record 'n row =
  Asset :: string
  Asset_type :: string
  Performance :: string
  Clicks :: 'n
  CTR :: 'n
  Impr :: 'n
  Cost :: 'n
  Installs :: 'n
  Installs_per_1000 :: "'n option"

record 'n cpi_row = "'n row" +
  CPI :: 'n

text \<open>A data frame: the rows in order, each with its index label.\<close>

type_synonym 'r frame = "(nat \<times> 'r) list"

definition read_excel :: "'r list \<Rightarrow> 'r frame" where
  "read_excel sheet = zip [0..<length sheet] sheet"

text \<open>
  \<open>pd.to_numeric(..., errors="coerce")\<close> on one cell. How pandas reads a text as a number
  is the parameter \<open>parse\<close>; a text it cannot read, and an empty cell, become NaN.
\<close>

fun to_numeric :: "(string \<Rightarrow> rat option) \<Rightarrow> cell \<Rightarrow> rat option" where
  "to_numeric parse (Num x) = Some x"
| "to_numeric parse (Str s) = parse s"
| "to_numeric parse Blank = None"

definition coerce_row :: "(string \<Rightarrow> rat option) \<Rightarrow> cell row \<Rightarrow> rat option row" where
  "coerce_row parse r =
     \<lparr> Asset = Asset r, Asset_type = Asset_type r, Performance = Performance r,
       Clicks = to_numeric parse (Clicks r),
       CTR = to_numeric parse (CTR r),
       Impr = to_numeric parse (Impr r),
       Cost = to_numeric parse (Cost r),
       Installs = to_numeric parse (Installs r),
       Installs_per_1000 = map_option (to_numeric parse) (Installs_per_1000 r) \<rparr>"

text \<open>\<open>df.dropna(subset=['Clicks','CTR','Impr.','Cost','Installs'])\<close>.\<close>

definition has_metrics :: "rat option row \<Rightarrow> bool" where
  "has_metrics r \<longleftrightarrow>
     Clicks r \<noteq> None \<and> CTR r \<noteq> None \<and> Impr r \<noteq> None \<and> Cost r \<noteq> None \<and> Installs r \<noteq> None"

definition dropna :: "rat option row frame \<Rightarrow> rat option row frame" where
  "dropna df = filter (\<lambda>(i, r). has_metrics r) df"

text \<open>
  \<open>Series.replace(0, 1)\<close> on one value (it returns a new series), and the division of two
  numeric values. \<open>None\<close> as the result of a division stands for every result that is not
  a finite number: NaN, and the infinity of a division by zero.
\<close>

definition replace_0_1 :: "rat option \<Rightarrow> rat option" where
  "replace_0_1 x = (if x = Some 0 then Some 1 else x)"

fun fdiv :: "rat option \<Rightarrow> rat option \<Rightarrow> rat option" where
  "fdiv (Some a) (Some b) = (if b = 0 then None else Some (a / b))"
| "fdiv _ _ = None"

definition add_cpi :: "rat option row \<Rightarrow> rat option cpi_row" where
  "add_cpi r = row.extend r (cpi_row.fields (fdiv (Cost r) (replace_0_1 (Installs r))))"

definition load_data :: "(string \<Rightarrow> rat option) \<Rightarrow> cell row list \<Rightarrow> rat option cpi_row frame" where
  "load_data parse sheet =
     map (\<lambda>(i, r). (i, add_cpi r))
       (dropna (map (\<lambda>(i, r). (i, coerce_row parse r)) (read_excel sheet)))"

text \<open>
  A small reader of texts, used for concrete runs only: a non-empty text of decimal
  digits reads as that number, every other text does not read.
\<close>

definition digit_val :: "char \<Rightarrow> nat option" where
  "digit_val c =
     (let n = (of_char c :: nat) in if 48 \<le> n \<and> n \<le> 57 then Some (n - 48) else None)"

fun digits_acc :: "nat \<Rightarrow> string \<Rightarrow> nat option" where
  "digits_acc acc [] = Some acc"
| "digits_acc acc (c # cs) =
     (case digit_val c of None \<Rightarrow> None | Some d \<Rightarrow> digits_acc (10 * acc + d) cs)"

definition parse_digits :: "string \<Rightarrow> rat option" where
  "parse_digits s = (if s = [] then None else map_option of_nat (digits_acc 0 s))"

section \<open>Sidebar controls, filter and sort\<close>

datatype metric = M_Clicks | M_Impr | M_CTR | M_Cost | M_Installs | M_CPI

datatype sort_order = High_to_Low | Low_to_High

text \<open>
  What the sidebar widgets return on one run of the script: the two multiselects, the
  \<open>'Sort By'\<close> selectbox (\<open>None\<close> is its entry \<open>'None'\<close>) and the \<open>'Order'\<close> radio.
\<close>

record controls =
  selected_assets :: "string list"
  selected_perf :: "string list"
  sort_by :: "metric option"
  order_sel :: sort_order

fun column :: "metric \<Rightarrow> rat option cpi_row \<Rightarrow> rat option" where
  "column M_Clicks r = Clicks r"
| "column M_Impr r = Impr r"
| "column M_CTR r = CTR r"
| "column M_Cost r = Cost r"
| "column M_Installs r = Installs r"
| "column M_CPI r = CPI r"

text \<open>\<open>Series.unique()\<close>: the distinct values in order of first appearance.\<close>

definition unique :: "'a list \<Rightarrow> 'a list" where
  "unique xs = rev (remdups (rev xs))"

definition isin :: "'a \<Rightarrow> 'a list \<Rightarrow> bool" where
  "isin x sel \<longleftrightarrow> x \<in> set sel"

definition filter_rows :: "controls \<Rightarrow> rat option cpi_row frame \<Rightarrow> rat option cpi_row frame" where
  "filter_rows c df =
     filter (\<lambda>(i, r). isin (Asset_type r) (selected_assets c) \<and> isin (Performance r) (selected_perf c)) df"

text \<open>
  \<open>DataFrame.sort_values(by=..., ascending=...)\<close> with its defaults (\<open>kind='quicksort'\<close>,
  \<open>na_position='last'\<close>), as pandas computes it for one column: the positions of the
  values that are not NaN are ordered by an argsort of those values, the positions of
  the NaN values follow, and the rows are taken in that order. For a descending sort
  pandas reverses the values, sorts them ascending and reverses the outcome. The argsort
  itself is numpy's and is the parameter \<open>argsort\<close>: it returns, for a list of values,
  the positions in the order that sorts them.
\<close>

definition take_rows :: "'a list \<Rightarrow> nat list \<Rightarrow> 'a list" where
  "take_rows xs indexer = map (\<lambda>i. xs ! i) indexer"

definition nargsort :: "(rat list \<Rightarrow> nat list) \<Rightarrow> bool \<Rightarrow> rat option list \<Rightarrow> nat list" where
  "nargsort argsort ascending items =
     (let idx = [0..<length items];
          non_nans = List.map_filter (\<lambda>x. x) items;
          non_nan_idx = filter (\<lambda>i. items ! i \<noteq> None) idx;
          nan_idx = filter (\<lambda>i. items ! i = None) idx;
          non_nans = (if ascending then non_nans else rev non_nans);
          non_nan_idx = (if ascending then non_nan_idx else rev non_nan_idx);
          indexer = take_rows non_nan_idx (argsort non_nans);
          indexer = (if ascending then indexer else rev indexer)
      in indexer @ nan_idx)"

definition sort_values ::
  "(rat list \<Rightarrow> nat list) \<Rightarrow> metric \<Rightarrow> bool \<Rightarrow> rat option cpi_row frame \<Rightarrow> rat option cpi_row frame" where
  "sort_values argsort by_col ascending df =
     take_rows df (nargsort argsort ascending (map (\<lambda>(i, r). column by_col r) df))"

text \<open>
  What numpy promises of an argsort on the values \<open>ks\<close>: a permutation of the positions
  that puts the values in non-decreasing order. The default kind, quicksort, promises
  nothing about values that are equal.
\<close>

definition argsort_ok :: "(rat list \<Rightarrow> nat list) \<Rightarrow> rat list \<Rightarrow> bool" where
  "argsort_ok argsort ks \<longleftrightarrow>
     sort (argsort ks) = [0..<length ks] \<and> sorted (take_rows ks (argsort ks))"

text \<open>A stable argsort (an insertion sort), used for concrete runs.\<close>

definition stable_argsort :: "rat list \<Rightarrow> nat list" where
  "stable_argsort ks = map fst (sort_key snd (zip [0..<length ks] ks))"

section \<open>Summary and pagination\<close>

text \<open>\<open>Series.mean()\<close>: NaN values are skipped; the mean of no value is NaN.\<close>

definition mean :: "rat option list \<Rightarrow> rat option" where
  "mean col =
     (let vs = List.map_filter (\<lambda>x. x) col
      in if vs = [] then None else Some (sum_list vs / of_nat (length vs)))"

text \<open>
  \<open>Series.value_counts()\<close>: each distinct value with the number of rows that hold it.
  The order in which pandas lists the values is not modelled (first appearance here).
\<close>

definition value_counts :: "string list \<Rightarrow> (string \<times> nat) list" where
  "value_counts col = map (\<lambda>v. (v, count_list col v)) (unique col)"

record summary =
  avg_clicks :: "rat option"
  avg_impr :: "rat option"
  avg_installs :: "rat option"
  avg_cost :: "rat option"
  avg_ctr :: "rat option"
  avg_cpi :: "rat option"
  asset_dist :: "(string \<times> nat) list"

definition avg :: "rat option cpi_row frame \<Rightarrow> metric \<Rightarrow> rat option" where
  "avg df c = mean (map (\<lambda>(i, r). column c r) df)"

definition summarize :: "rat option cpi_row frame \<Rightarrow> summary" where
  "summarize df =
     \<lparr> avg_clicks = avg df M_Clicks, avg_impr = avg df M_Impr, avg_installs = avg df M_Installs,
       avg_cost = avg df M_Cost, avg_ctr = avg df M_CTR, avg_cpi = avg df M_CPI,
       asset_dist = value_counts (map (\<lambda>(i, r). Asset_type r) df) \<rparr>"

definition per_page :: nat where
  "per_page = 10"

text \<open>\<open>math.ceil(total/per_page)\<close>, for \<open>total\<close> the number of filtered rows.\<close>

definition pages_of :: "nat \<Rightarrow> int" where
  "pages_of n_total = \<lceil>rat_of_nat n_total / rat_of_nat per_page\<rceil>"

text \<open>
  A Python slice \<open>xs[start:stop]\<close> (what \<open>iloc\<close> does with it): a negative bound counts
  from the end, and bounds beyond the list are cut to it.
\<close>

definition slice_bound :: "nat \<Rightarrow> int \<Rightarrow> nat" where
  "slice_bound n i = (if i < 0 then nat (max 0 (i + int n)) else min n (nat i))"

definition iloc :: "'a list \<Rightarrow> int \<Rightarrow> int \<Rightarrow> 'a list" where
  "iloc xs start stop =
     (let a = slice_bound (length xs) start; b = slice_bound (length xs) stop
      in take (b - a) (drop a xs))"

text \<open>
  One run of the script from the filter to the page: \<open>filter_and_sort\<close> is the
  \<open>df_filtered\<close> of the script. \<open>st.stop()\<close> after the warning ends the run: nothing of
  what follows it is shown. \<open>number_input\<close> is the page widget,
  called with its minimum, maximum and default; it returns the number the user has set.
\<close>

datatype 'a run = No_data_matches_filters | Rendered 'a

record screen =
  showing :: nat
  the_summary :: summary
  pages :: int
  page :: int
  rows_shown :: "rat option cpi_row frame"

definition filter_and_sort ::
  "(rat list \<Rightarrow> nat list) \<Rightarrow> controls \<Rightarrow> rat option cpi_row frame \<Rightarrow> rat option cpi_row frame" where
  "filter_and_sort argsort c df =
     (let df_filtered = filter_rows c df
      in case sort_by c of
           None \<Rightarrow> df_filtered
         | Some m \<Rightarrow> sort_values argsort m (order_sel c = Low_to_High) df_filtered)"

definition dashboard ::
  "(rat list \<Rightarrow> nat list) \<Rightarrow> (int \<Rightarrow> int \<Rightarrow> int \<Rightarrow> int) \<Rightarrow> controls \<Rightarrow> rat option cpi_row frame \<Rightarrow> screen run" where
  "dashboard argsort number_input c df =
     (let df_filtered = filter_and_sort argsort c df
      in if df_filtered = [] then No_data_matches_filters
         else
           let n_total = length df_filtered;
               pages = pages_of n_total;
               page = (if pages > 1 then number_input 1 pages 1 else 1);
               start = (page - 1) * int per_page;
               subset = iloc df_filtered start (start + int per_page)
           in Rendered \<lparr> showing = n_total, the_summary = summarize df, pages = pages,
                page = page, rows_shown = subset \<rparr>)"

text \<open>
  The default of both multiselects is every value of the column, so a user who touches
  nothing selects all of them.
\<close>

definition default_controls :: "rat option cpi_row frame \<Rightarrow> controls" where
  "default_controls df =
     \<lparr> selected_assets = unique (map (\<lambda>(i, r). Asset_type r) df),
       selected_perf = unique (map (\<lambda>(i, r). Performance r) df),
       sort_by = None, order_sel = High_to_Low \<rparr>"

section \<open>Strings\<close>

text \<open>
  Python's \<open>s.startswith(p)\<close>, \<open>p in s\<close>, \<open>s.replace(old, new)\<close>, \<open>s.strip()\<close> and
  \<open>s.split(sep)\<close> for a separator of one character. Characters are bytes here, so
  \<open>strip\<close> knows the ASCII white space only.
\<close>

fun startswith :: "string \<Rightarrow> string \<Rightarrow> bool" where
  "startswith s [] = True"
| "startswith [] (p # ps) = False"
| "startswith (c # cs) (p # ps) = (c = p \<and> startswith cs ps)"


fun replace_from :: "string \<Rightarrow> string \<Rightarrow> string \<Rightarrow> string" where
  "replace_from [] old new = []"
| "replace_from (c # cs) old new =
     (if startswith (c # cs) old
      then new @ replace_from (drop (length old - 1) cs) old new
      else c # replace_from cs old new)"

definition replace :: "string \<Rightarrow> string \<Rightarrow> string \<Rightarrow> string" where
  "replace s old new =
     (if old = [] then new @ concat (map (\<lambda>c. c # new) s) else replace_from s old new)"

definition isspace :: "char \<Rightarrow> bool" where
  "isspace c = (let n = (of_char c :: nat) in (9 \<le> n \<and> n \<le> 13) \<or> (28 \<le> n \<and> n \<le> 32))"

definition strip :: "string \<Rightarrow> string" where
  "strip s = rev (dropWhile isspace (rev (dropWhile isspace s)))"

fun split_sep :: "string \<Rightarrow> char \<Rightarrow> string list" where
  "split_sep [] sep = [[]]"
| "split_sep (c # cs) sep =
     (if c = sep then [] # split_sep cs sep
      else (case split_sep cs sep of [] \<Rightarrow> [[c]] | w # ws \<Rightarrow> (c # w) # ws))"

text \<open>
  The words of the specification for the fallback title, "the substring after the final
  \<open>/\<close>": what is left of the text when everything up to the last separator is cut (the
  whole text when it has no separator). The program computes \<open>url.split('/')[-1]\<close>.
\<close>

definition after_final :: "char \<Rightarrow> string \<Rightarrow> string" where
  "after_final sep s = rev (takeWhile (\<lambda>c. c \<noteq> sep) (rev s))"

text \<open>\<open>xs[-1]\<close>: the last item; on an empty list Python raises IndexError (\<open>None\<close>).\<close>

definition last_item :: "'a list \<Rightarrow> 'a option" where
  "last_item xs = (if xs = [] then None else Some (last xs))"

section \<open>The network, the two cached lookups and the cards\<close>

text \<open>
  What the program reads of an HTTP response: the status, the body as text and the
  \<open>Content-Type\<close> header when there is one.
\<close>

record response =
  status_code :: nat
  body :: string
  content_type :: "string option"

text \<open>What \<open>BeautifulSoup(text, 'html.parser').find('title')\<close> comes to.\<close>

datatype parsed = Parse_failed | No_title | Title string

text \<open>
  The world outside the program at the time of one call: the answer to a GET and to a
  HEAD request of a URL (\<open>None\<close>: \<open>requests\<close> raised, as on a timeout, a refused
  connection or a malformed URL), and the title element the parser finds in a body.
  Neither call of \<open>requests\<close> in the program asks for an error on a status outside 2xx.
\<close>

record net =
  requests_get :: "string \<Rightarrow> response option"
  requests_head :: "string \<Rightarrow> response option"
  soup_title :: "string \<Rightarrow> parsed"

datatype exn = Exception

definition url_tail :: "string \<Rightarrow> exn + string" where
  "url_tail url = (case last_item (split_sep url CHR ''/'') of None \<Rightarrow> Inl Exception | Some s \<Rightarrow> Inr s)"

text \<open>The body of the \<open>try\<close> in \<open>get_youtube_title\<close>, and the function with its \<open>except\<close>.\<close>

definition try_title :: "net \<Rightarrow> string \<Rightarrow> exn + string" where
  "try_title nw url =
     (case requests_get nw url of
        None \<Rightarrow> Inl Exception
      | Some res \<Rightarrow>
          (case soup_title nw (body res) of
             Parse_failed \<Rightarrow> Inl Exception
           | No_title \<Rightarrow> url_tail url
           | Title t \<Rightarrow> Inr (strip (replace t '' - YouTube'' ''''))))"

definition get_youtube_title :: "net \<Rightarrow> string \<Rightarrow> exn + string" where
  "get_youtube_title nw url =
     (case try_title nw url of Inr t \<Rightarrow> Inr t | Inl e \<Rightarrow> url_tail url)"


text \<open>
  \<open>@st.cache_data\<close>: a table from the argument to the returned value, kept for the life
  of the process; the function body runs only when the argument is not in the table,
  and a call that raises stores nothing. \<open>get_log\<close> and \<open>head_log\<close> are not program
  state: they record the requests that went out, in order.
\<close>

record caches =
  title_cache :: "string \<rightharpoonup> string"
  image_cache :: "string \<rightharpoonup> bool"
  get_log :: "string list"
  head_log :: "string list"

definition cached_title :: "net \<Rightarrow> caches \<Rightarrow> string \<Rightarrow> (exn + string) \<times> caches" where
  "cached_title nw st url =
     (case title_cache st url of
        Some t \<Rightarrow> (Inr t, st)
      | None \<Rightarrow>
          (case get_youtube_title nw url of
             Inr t \<Rightarrow> (Inr t, st\<lparr>title_cache := (title_cache st)(url \<mapsto> t), get_log := get_log st @ [url]\<rparr>)
           | Inl e \<Rightarrow> (Inl e, st\<lparr>get_log := get_log st @ [url]\<rparr>)))"








section \<open>Concrete inputs\<close>

text \<open>
  A sheet of four rows. Rows 0 and 1 have the same number of clicks, row 1 has no
  install, row 2 has a text where its clicks should be, and the impressions of row 1
  are a text of digits.
\<close>

definition example_sheet :: "cell row list" where
  "example_sheet =
     [ \<lparr> Asset = ''https://youtu.be/abc123'', Asset_type = ''Video'', Performance = ''Best'',
         Clicks = Num 30, CTR = Num (1 / 10), Impr = Num 300, Cost = Num 12, Installs = Num 4,
         Installs_per_1000 = None \<rparr>,
       \<lparr> Asset = ''Banner text'', Asset_type = ''Text'', Performance = ''Low'',
         Clicks = Num 30, CTR = Num (1 / 20), Impr = Str ''600'', Cost = Num 7, Installs = Num 0,
         Installs_per_1000 = None \<rparr>,
       \<lparr> Asset = ''https://example.com/pic.jpg'', Asset_type = ''Image'', Performance = ''Good'',
         Clicks = Str ''n/a'', CTR = Num (1 / 5), Impr = Num 50, Cost = Num 3, Installs = Num 1,
         Installs_per_1000 = None \<rparr>,
       \<lparr> Asset = ''httpbanner'', Asset_type = ''Text'', Performance = ''Good'',
         Clicks = Num 5, CTR = Num (1 / 4), Impr = Num 20, Cost = Num 9, Installs = Num 3,
         Installs_per_1000 = None \<rparr> ]"

definition example_df :: "rat option cpi_row frame" where
  "example_df = load_data parse_digits example_sheet"

text \<open>
  Four states of the network. \<open>net_down\<close>: every request raises. \<open>net_img\<close>: a GET
  raises and a HEAD answers with an image type. \<open>net_404\<close>: a GET is answered with
  status 404 and an error page that has a title. \<open>net_twice\<close>: a GET is answered with a
  page whose title holds the site's suffix twice.
\<close>

definition net_down :: net where
  "net_down = \<lparr> requests_get = (\<lambda>u. None), requests_head = (\<lambda>u. None),
     soup_title = (\<lambda>b. No_title) \<rparr>"




text \<open>
  Controls that select no asset type, controls that select the one row of performance
  \<open>Good\<close>, and the page widget of a user who has set the number \<open>n\<close> (the widget admits
  it only within its bounds).
\<close>

definition select_nothing :: controls where
  "select_nothing = (default_controls example_df)\<lparr> selected_assets := [] \<rparr>"

definition select_good :: controls where
  "select_good = (default_controls example_df)\<lparr> selected_perf := [''Good''] \<rparr>"

definition page_set_to :: "int \<Rightarrow> int \<Rightarrow> int \<Rightarrow> int \<Rightarrow> int" where
  "page_set_to n lo hi d = (if lo \<le> n \<and> n \<le> hi then n else d)"

text \<open>A frame of twelve rows (labels 0 to 11), all copies of the first example row.\<close>

definition twelve_df :: "rat option cpi_row frame" where
  "twelve_df = map (\<lambda>k. (k, snd (example_df ! 0))) [0..<12]"

text \<open>
  Controls that keep the two example rows with the same number of clicks (all but the
  performance \<open>Good\<close>) and sort by clicks, and controls that keep every row and sort by
  cost.
\<close>

definition tied_by_clicks :: "sort_order \<Rightarrow> controls" where
  "tied_by_clicks ord = (default_controls example_df)
     \<lparr> selected_perf := [''Best'', ''Low''], sort_by := Some M_Clicks, order_sel := ord \<rparr>"

definition all_by_cost :: "sort_order \<Rightarrow> controls" where
  "all_by_cost ord = (default_controls example_df)\<lparr> sort_by := Some M_Cost, order_sel := ord \<rparr>"

text \<open>The values of a column that are not NaN: what \<open>nargsort\<close> hands to the argsort.\<close>

definition col_values :: "metric \<Rightarrow> rat option cpi_row frame \<Rightarrow> rat list" where
  "col_values m df = List.map_filter (\<lambda>x. x) (map (\<lambda>(i, r). column m r) df)"

section \<open>Loading: the rows kept, the cost per install, the other columns\<close>

lemma read_excel_alt: "read_excel sheet = map (\<lambda>i. (i, sheet ! i)) [0..<length sheet]"
  unfolding read_excel_def by (rule nth_equalityI) simp_all

lemma load_data_alt:
  "load_data parse sheet =
     map (\<lambda>i. (i, add_cpi (coerce_row parse (sheet ! i))))
       (filter (\<lambda>i. has_metrics (coerce_row parse (sheet ! i))) [0..<length sheet])"
  by (simp add: load_data_def dropna_def read_excel_alt filter_map comp_def)

lemma load_data_mem:
  "(i, r) \<in> set (load_data parse sheet) \<longleftrightarrow>
     i < length sheet \<and> has_metrics (coerce_row parse (sheet ! i)) \<and>
     r = add_cpi (coerce_row parse (sheet ! i))"
  by (auto simp: load_data_alt)

lemma load_data_labels:
  "map fst (load_data parse sheet) =
     filter (\<lambda>i. has_metrics (coerce_row parse (sheet ! i))) [0..<length sheet]"
  by (simp add: load_data_alt comp_def)

lemma add_cpi_fields:
  "Asset (add_cpi r) = Asset r" "Asset_type (add_cpi r) = Asset_type r"
  "Performance (add_cpi r) = Performance r"
  "Clicks (add_cpi r) = Clicks r" "CTR (add_cpi r) = CTR r" "Impr (add_cpi r) = Impr r"
  "Cost (add_cpi r) = Cost r" "Installs (add_cpi r) = Installs r"
  "Installs_per_1000 (add_cpi r) = Installs_per_1000 r"
  "CPI (add_cpi r) = fdiv (Cost r) (replace_0_1 (Installs r))"
  by (simp_all add: add_cpi_def row.defs cpi_row.defs)

lemma truncate_add_cpi: "row.truncate (add_cpi r) = r"
  by (simp add: row.truncate_def add_cpi_fields)

lemma coerce_row_fields:
  "Asset (coerce_row p r) = Asset r" "Asset_type (coerce_row p r) = Asset_type r"
  "Performance (coerce_row p r) = Performance r"
  "Clicks (coerce_row p r) = to_numeric p (Clicks r)" "CTR (coerce_row p r) = to_numeric p (CTR r)"
  "Impr (coerce_row p r) = to_numeric p (Impr r)" "Cost (coerce_row p r) = to_numeric p (Cost r)"
  "Installs (coerce_row p r) = to_numeric p (Installs r)"
  "Installs_per_1000 (coerce_row p r) = map_option (to_numeric p) (Installs_per_1000 r)"
  by (simp_all add: coerce_row_def)

text \<open>
  C3. For every row of the loaded frame, the cost and the installs are numbers, and the
  cost per install is the cost divided by the installs when the installs are positive
  and the cost itself when the installs are zero; in both cases it is a finite number.
\<close>

theorem cpi_zero_guard:
  assumes "(i, r) \<in> set (load_data parse sheet)"
  shows "\<exists>c n. Cost r = Some c \<and> Installs r = Some n \<and>
           (0 < n \<longrightarrow> CPI r = Some (c / n)) \<and> (n = 0 \<longrightarrow> CPI r = Some c)"
  using assms
  by (auto simp: load_data_mem has_metrics_def add_cpi_fields replace_0_1_def)

theorem cpi_zero_guard_witness:
  "(1, snd (example_df ! 1)) \<in> set (load_data parse_digits example_sheet) \<and>
   Installs (snd (example_df ! 1)) = Some 0 \<and> Cost (snd (example_df ! 1)) = Some 7 \<and>
   CPI (snd (example_df ! 1)) = Some 7 \<and>
   (0, snd (example_df ! 0)) \<in> set (load_data parse_digits example_sheet) \<and>
   Installs (snd (example_df ! 0)) = Some 4 \<and> Cost (snd (example_df ! 0)) = Some 12 \<and>
   CPI (snd (example_df ! 0)) = Some 3"
proof -
  have m1: "(1, snd (example_df ! 1)) \<in> set (load_data parse_digits example_sheet)"
    by code_simp
  have m0: "(0, snd (example_df ! 0)) \<in> set (load_data parse_digits example_sheet)"
    by code_simp
  have f1: "Installs (snd (example_df ! 1)) = Some 0 \<and> Cost (snd (example_df ! 1)) = Some 7"
    by code_simp
  have f0: "Installs (snd (example_df ! 0)) = Some 4 \<and> Cost (snd (example_df ! 0)) = Some 12"
    by code_simp
  from cpi_zero_guard [OF m1] f1 have "CPI (snd (example_df ! 1)) = Some 7"
    by auto
  moreover from cpi_zero_guard [OF m0] f0 have "CPI (snd (example_df ! 0)) = Some 3"
    by auto
  ultimately show ?thesis
    using m0 m1 f0 f1 by simp
qed

text \<open>
  C7. The index labels of the loaded frame are, in order, exactly the labels of the
  sheet's rows whose five metric cells all read as numbers, and every loaded row has a
  number in each of the five columns. \<open>load_data\<close> is a total function of the sheet:
  a cell that does not read as a number removes its row and nothing else.
\<close>

theorem load_keeps_numeric_rows:
  "map fst (load_data parse sheet) =
     filter (\<lambda>i. to_numeric parse (Clicks (sheet ! i)) \<noteq> None \<and>
                 to_numeric parse (CTR (sheet ! i)) \<noteq> None \<and>
                 to_numeric parse (Impr (sheet ! i)) \<noteq> None \<and>
                 to_numeric parse (Cost (sheet ! i)) \<noteq> None \<and>
                 to_numeric parse (Installs (sheet ! i)) \<noteq> None) [0..<length sheet]
   \<and> (\<forall>(i, r) \<in> set (load_data parse sheet).
         Clicks r \<noteq> None \<and> CTR r \<noteq> None \<and> Impr r \<noteq> None \<and> Cost r \<noteq> None \<and> Installs r \<noteq> None)"
  by (auto simp: load_data_labels load_data_mem has_metrics_def add_cpi_fields coerce_row_fields)

theorem load_keeps_numeric_rows_witness:
  "to_numeric parse_digits (Clicks (example_sheet ! 2)) = None \<and>
   map fst (load_data parse_digits example_sheet) = [0, 1, 3] \<and>
   Impr (snd (load_data parse_digits example_sheet ! 1)) = Some 600"
proof -
  have bad: "to_numeric parse_digits (Clicks (example_sheet ! 2)) = None"
    by code_simp
  have kept:
    "filter (\<lambda>i. to_numeric parse_digits (Clicks (example_sheet ! i)) \<noteq> None \<and>
                 to_numeric parse_digits (CTR (example_sheet ! i)) \<noteq> None \<and>
                 to_numeric parse_digits (Impr (example_sheet ! i)) \<noteq> None \<and>
                 to_numeric parse_digits (Cost (example_sheet ! i)) \<noteq> None \<and>
                 to_numeric parse_digits (Installs (example_sheet ! i)) \<noteq> None)
        [0..<length example_sheet] = [0, 1, 3]"
    by code_simp
  have impr: "Impr (snd (load_data parse_digits example_sheet ! 1)) = Some 600"
    by code_simp
  from load_keeps_numeric_rows [of parse_digits example_sheet] kept
  have "map fst (load_data parse_digits example_sheet) = [0, 1, 3]"
    by simp
  with bad impr show ?thesis
    by simp
qed

text \<open>
  C9. Adding the cost per install changes no other column: every loaded row, cut back
  to the columns of the sheet, is the coerced row of the sheet with the same label. In
  particular the installs of a row stay what they were, also when they are zero (the
  one that replaces a zero is the divisor only), and then the cost per install is the
  cost.
\<close>

theorem cpi_frame:
  assumes "(i, r) \<in> set (load_data parse sheet)"
  shows "row.truncate r = coerce_row parse (sheet ! i) \<and>
         Asset r = Asset (sheet ! i) \<and> Asset_type r = Asset_type (sheet ! i) \<and>
         Performance r = Performance (sheet ! i) \<and>
         Clicks r = to_numeric parse (Clicks (sheet ! i)) \<and>
         CTR r = to_numeric parse (CTR (sheet ! i)) \<and>
         Impr r = to_numeric parse (Impr (sheet ! i)) \<and>
         Cost r = to_numeric parse (Cost (sheet ! i)) \<and>
         Installs r = to_numeric parse (Installs (sheet ! i)) \<and>
         (Installs (sheet ! i) = Num 0 \<longrightarrow> Installs r = Some 0 \<and> CPI r = Cost r)"
  using assms
  by (auto simp: load_data_mem truncate_add_cpi add_cpi_fields coerce_row_fields
      has_metrics_def replace_0_1_def)

theorem cpi_frame_witness:
  "(1, snd (example_df ! 1)) \<in> set (load_data parse_digits example_sheet) \<and>
   Installs (example_sheet ! 1) = Num 0 \<and>
   Installs (snd (example_df ! 1)) = Some 0 \<and>
   Asset (snd (example_df ! 1)) = ''Banner text'' \<and>
   row.truncate (snd (example_df ! 1)) = coerce_row parse_digits (example_sheet ! 1)"
proof -
  have m1: "(1, snd (example_df ! 1)) \<in> set (load_data parse_digits example_sheet)"
    by code_simp
  have z: "Installs (example_sheet ! 1) = Num 0" and a: "Asset (example_sheet ! 1) = ''Banner text''"
    by code_simp+
  from cpi_frame [OF m1] z a m1 show ?thesis
    by simp
qed

section \<open>Pagination and the summary\<close>

lemma pages_of_div: "pages_of n = (int n + 9) div 10"
proof -
  have "pages_of n = \<lceil>(of_int (int n) :: rat) / of_int 10\<rceil>"
    by (simp add: pages_of_def per_page_def)
  also have "\<dots> = - (- int n div 10)"
    by (rule ceiling_divide_eq_div)
  also have "\<dots> = (int n + 9) div 10"
    by presburger
  finally show ?thesis .
qed

lemma take_min_length: "take (min (length ys) k) ys = take k ys"
  by (simp add: min_def)

lemma iloc_window:
  assumes "0 \<le> start"
  shows "iloc xs start (start + int k) = take k (drop (nat start) xs)"
proof -
  define s where "s = nat start"
  have a: "slice_bound (length xs) start = min (length xs) s"
    using assms by (simp add: slice_bound_def s_def)
  have b: "slice_bound (length xs) (start + int k) = min (length xs) (s + k)"
    using assms by (simp add: slice_bound_def s_def nat_add_distrib)
  show ?thesis
  proof (cases "s < length xs")
    case True
    then have "min (length xs) (s + k) - min (length xs) s = min (length (drop s xs)) k"
      by (auto simp: min_def)
    moreover have "min (length xs) s = s"
      using True by simp
    ultimately have "iloc xs start (start + int k) = take (min (length (drop s xs)) k) (drop s xs)"
      by (simp only: iloc_def a b Let_def)
    then show ?thesis
      by (simp only: take_min_length s_def)
  next
    case False
    then show ?thesis
      by (simp add: iloc_def a b s_def [symmetric])
  qed
qed

lemma take_drop_positions:
  "take k (drop s xs) = map (\<lambda>j. xs ! j) [s ..< min (s + k) (length xs)]"
  by (rule nth_equalityI) auto

lemma filter_rows_default: "filter_rows (default_controls df) df = df"
  by (auto simp: filter_rows_def default_controls_def isin_def unique_def intro!: filter_True)

lemma filter_and_sort_default: "filter_and_sort argsort (default_controls df) df = df"
  by (simp add: filter_and_sort_def filter_rows_default) (simp add: default_controls_def)

text \<open>
  C2, as amended. A run either stops at the warning, exactly when no row is left after
  the filter (then no page count is shown at all), or it shows a screen. On a screen the
  count of rows is positive, the number of pages is \<open>max 1 (ceil (count / 10))\<close>, the
  page lies between 1 and the number of pages provided the page widget keeps its value
  within the bounds it is given, and the rows shown are the filtered and sorted rows at
  the positions from \<open>(page - 1) * 10\<close> up to, not including, \<open>page * 10\<close>, cut at the
  end of the frame.
\<close>

theorem pagination:
  assumes widget: "\<forall>hi. 1 \<le> hi \<longrightarrow> 1 \<le> number_input 1 hi 1 \<and> number_input 1 hi 1 \<le> hi"
  shows "case dashboard argsort number_input c df of
           No_data_matches_filters \<Rightarrow> filter_and_sort argsort c df = []
         | Rendered v \<Rightarrow>
             showing v = length (filter_and_sort argsort c df) \<and> 0 < showing v \<and>
             pages v = max 1 \<lceil>rat_of_nat (showing v) / 10\<rceil> \<and>
             1 \<le> page v \<and> page v \<le> pages v \<and>
             rows_shown v =
               map (\<lambda>j. filter_and_sort argsort c df ! j)
                 [nat ((page v - 1) * 10) ..<
                  min (nat (page v * 10)) (length (filter_and_sort argsort c df))]"
proof (cases "filter_and_sort argsort c df = []")
  case True
  then show ?thesis by (simp add: dashboard_def)
next
  case False
  define fs where "fs = filter_and_sort argsort c df"
  define pg where
    "pg = (if pages_of (length fs) > 1 then number_input 1 (pages_of (length fs)) 1 else 1)"
  have len: "0 < length fs" using False by (simp add: fs_def)
  then have "10 \<le> int (length fs) + 9" by linarith
  then have "0 < (int (length fs) + 9) div 10" by (simp add: pos_imp_zdiv_pos_iff)
  then have p1: "1 \<le> pages_of (length fs)" by (simp add: pages_of_div)
  have pg: "1 \<le> pg \<and> pg \<le> pages_of (length fs)"
    using widget p1 by (auto simp: pg_def)
  have ceil: "pages_of (length fs) = max 1 \<lceil>rat_of_nat (length fs) / 10\<rceil>"
    using p1 by (simp add: pages_of_def per_page_def)
  have start: "0 \<le> (pg - 1) * 10" using pg by simp
  have win: "iloc fs ((pg - 1) * 10) ((pg - 1) * 10 + int 10) =
      map (\<lambda>j. fs ! j) [nat ((pg - 1) * 10) ..< min (nat (pg * 10)) (length fs)]"
  proof -
    have "nat ((pg - 1) * 10) + 10 = nat ((pg - 1) * 10 + 10)"
      using start by (simp add: nat_add_distrib)
    also have "(pg - 1) * 10 + 10 = pg * 10"
      by (simp add: algebra_simps)
    finally have "nat ((pg - 1) * 10) + 10 = nat (pg * 10)" .
    then show ?thesis
      by (simp only: iloc_window [OF start] take_drop_positions)
  qed
  have "dashboard argsort number_input c df =
      Rendered \<lparr> showing = length fs, the_summary = summarize df, pages = pages_of (length fs),
        page = pg, rows_shown = iloc fs ((pg - 1) * 10) ((pg - 1) * 10 + int 10) \<rparr>"
    using False by (simp add: dashboard_def Let_def fs_def pg_def per_page_def)
  then show ?thesis
    using len pg ceil win by (simp add: fs_def)
qed

theorem pagination_witness:
  "(case dashboard stable_argsort (page_set_to 2) (default_controls twelve_df) twelve_df of
      No_data_matches_filters \<Rightarrow> False
    | Rendered v \<Rightarrow>
        showing v = 12 \<and> pages v = 2 \<and> page v = 2 \<and> map fst (rows_shown v) = [10, 11]) \<and>
   (case dashboard stable_argsort (page_set_to 2) (default_controls twelve_df) twelve_df of
      No_data_matches_filters \<Rightarrow>
        filter_and_sort stable_argsort (default_controls twelve_df) twelve_df = []
    | Rendered v \<Rightarrow>
        showing v = length (filter_and_sort stable_argsort (default_controls twelve_df) twelve_df) \<and>
        0 < showing v \<and>
        pages v = max 1 \<lceil>rat_of_nat (showing v) / 10\<rceil> \<and>
        1 \<le> page v \<and> page v \<le> pages v \<and>
        rows_shown v =
          map (\<lambda>j. filter_and_sort stable_argsort (default_controls twelve_df) twelve_df ! j)
            [nat ((page v - 1) * 10) ..<
             min (nat (page v * 10))
               (length (filter_and_sort stable_argsort (default_controls twelve_df) twelve_df))])"
proof -
  have widget: "\<forall>hi. 1 \<le> hi \<longrightarrow> 1 \<le> page_set_to 2 1 hi 1 \<and> page_set_to 2 1 hi 1 \<le> hi"
    by (simp add: page_set_to_def)
  have run: "case dashboard stable_argsort (page_set_to 2) (default_controls twelve_df) twelve_df of
      No_data_matches_filters \<Rightarrow> False
    | Rendered v \<Rightarrow>
        showing v = 12 \<and> pages v = 2 \<and> page v = 2 \<and> map fst (rows_shown v) = [10, 11]"
    by code_simp
  from run pagination [where number_input = "page_set_to 2" and argsort = stable_argsort
      and c = "default_controls twelve_df" and df = twelve_df, OF widget]
  show ?thesis by simp
qed

text \<open>
  The claim C2 as it is written fails where no row passes the filter: the count is 0,
  the run stops at the warning and shows no page count, and the expression the script
  would use, \<open>ceil (0 / 10)\<close>, is 0 and not 1.
\<close>

theorem no_rows_no_page_count_counterexample:
  "length (filter_and_sort stable_argsort select_nothing example_df) = 0 \<and>
   dashboard stable_argsort (page_set_to 1) select_nothing example_df = No_data_matches_filters \<and>
   pages_of 0 = 0"
  by code_simp

text \<open>
  C6, as amended. Whenever a run shows a screen, its summary is the summary of the whole
  loaded frame: it is the same as on the run of a user who has filtered nothing, which
  shows all rows.
\<close>

theorem summary_ignores_filter:
  assumes "dashboard argsort number_input c df = Rendered v"
      and "dashboard argsort' number_input' (default_controls df) df = Rendered w"
  shows "the_summary v = the_summary w \<and> the_summary v = summarize df \<and> showing w = length df"
  using assms
  by (auto simp: dashboard_def Let_def filter_and_sort_default split: if_splits)

theorem summary_ignores_filter_witness:
  "\<exists>v w. dashboard stable_argsort (page_set_to 1) select_good example_df = Rendered v \<and>
         dashboard stable_argsort (page_set_to 1) (default_controls example_df) example_df = Rendered w \<and>
         the_summary v = the_summary w \<and> showing v = 1 \<and> showing w = 3"
proof -
  have a: "case dashboard stable_argsort (page_set_to 1) select_good example_df of
      No_data_matches_filters \<Rightarrow> False | Rendered v \<Rightarrow> showing v = 1"
    by code_simp
  have b: "case dashboard stable_argsort (page_set_to 1) (default_controls example_df) example_df of
      No_data_matches_filters \<Rightarrow> False | Rendered w \<Rightarrow> showing w = 3"
    by code_simp
  from a obtain v where v: "dashboard stable_argsort (page_set_to 1) select_good example_df = Rendered v"
    and sv: "showing v = 1"
    by (cases "dashboard stable_argsort (page_set_to 1) select_good example_df") auto
  from b obtain w
    where w: "dashboard stable_argsort (page_set_to 1) (default_controls example_df) example_df = Rendered w"
    and sw: "showing w = 3"
    by (cases "dashboard stable_argsort (page_set_to 1) (default_controls example_df) example_df") auto
  from summary_ignores_filter [OF v w] v w sv sw show ?thesis
    by simp
qed

text \<open>
  The claim C6 as it is written fails for a selection that leaves no row (M = 0 < N):
  that run stops at the warning and shows no summary, while the run without a filter
  shows one.
\<close>

theorem no_rows_no_summary_counterexample:
  "length (filter_rows select_nothing example_df) < length example_df \<and>
   dashboard stable_argsort (page_set_to 1) select_nothing example_df = No_data_matches_filters \<and>
   dashboard stable_argsort (page_set_to 1) (default_controls example_df) example_df
     \<noteq> No_data_matches_filters"
  by code_simp

section \<open>The title of a video\<close>

lemma split_sep_not_Nil: "split_sep s sep \<noteq> []"
  by (induction s) (auto split: list.splits)

lemma split_sep_no_sep: "sep \<notin> set s \<Longrightarrow> split_sep s sep = [s]"
  by (induction s) auto

lemma split_sep_has_sep: "sep \<in> set s \<Longrightarrow> tl (split_sep s sep) \<noteq> []"
  by (induction s) (auto simp: split_sep_not_Nil split: list.splits)

lemma takeWhile_no_sep: "sep \<notin> set s \<Longrightarrow> takeWhile (\<lambda>c. c \<noteq> sep) (rev s) = rev s"
  by auto

lemma after_final_Cons:
  "after_final sep (c # cs) = (if sep \<in> set cs \<or> c = sep then after_final sep cs else c # cs)"
proof (cases "sep \<in> set cs")
  case True
  then show ?thesis
    by (auto simp: after_final_def takeWhile_append)
next
  case False
  then show ?thesis
    by (auto simp: after_final_def takeWhile_tail takeWhile_no_sep)
qed

text \<open>The last piece of \<open>s.split(sep)\<close> is the text after the final separator.\<close>

lemma last_split_sep: "last (split_sep s sep) = after_final sep s"
proof (induction s)
  case Nil
  show ?case by (simp add: after_final_def)
next
  case (Cons c cs)
  show ?case
  proof (cases "c = sep")
    case True
    then show ?thesis
      using Cons by (simp add: split_sep_not_Nil after_final_Cons)
  next
    case False
    show ?thesis
    proof (cases "sep \<in> set cs")
      case True
      from split_sep_has_sep [OF True] obtain w v ws where "split_sep cs sep = w # v # ws"
        by (cases "split_sep cs sep"; cases "tl (split_sep cs sep)") auto
      with Cons True False show ?thesis
        by (simp add: after_final_Cons)
    next
      case no: False
      with False show ?thesis
        by (simp add: split_sep_no_sep after_final_Cons)
    qed
  qed
qed

lemma url_tail_eq: "url_tail url = Inr (after_final CHR ''/'' url)"
  by (simp add: url_tail_def last_item_def split_sep_not_Nil last_split_sep)

lemma get_youtube_title_eq:
  "get_youtube_title nw url =
     Inr (case requests_get nw url of
            None \<Rightarrow> after_final CHR ''/'' url
          | Some res \<Rightarrow>
              (case soup_title nw (body res) of
                 Parse_failed \<Rightarrow> after_final CHR ''/'' url
               | No_title \<Rightarrow> after_final CHR ''/'' url
               | Title t \<Rightarrow> strip (replace t '' - YouTube'' '''')))"
  by (simp add: get_youtube_title_def try_title_def url_tail_eq split: option.split parsed.split)

lemma get_youtube_title_returns: "\<exists>t. get_youtube_title nw url = Inr t"
  by (simp add: get_youtube_title_eq)




lemma failed_fetch_example: "get_youtube_title net_down ''https://youtu.be/xyz'' = Inr ''xyz''"
  by code_simp

text \<open>
  C8. Two calls of the cached title lookup with the same URL, whatever the network does
  at either time and whatever the caches hold before: both return the same text, the
  second call leaves the state as it is (it sends nothing), and over both calls at most
  one GET of the URL goes out.
\<close>

theorem title_cached:
  "\<exists>t s1. cached_title nw1 st url = (Inr t, s1) \<and> cached_title nw2 s1 url = (Inr t, s1) \<and>
          (get_log s1 = get_log st \<or> get_log s1 = get_log st @ [url])"
proof (cases "title_cache st url")
  case None
  obtain t where t: "get_youtube_title nw1 url = Inr t"
    using get_youtube_title_returns by blast
  then show ?thesis
    using None by (simp add: cached_title_def)
next
  case (Some t)
  then show ?thesis
    by (simp add: cached_title_def)
qed

section \<open>The kind of a card\<close>





end
